theory Spec2Isabelle
  imports Main
begin

section \<open>The upload handler \<open>process_file\<close> of \<open>src/main.py\<close>\<close>

text \<open>
  The repository is one Python function, \<open>process_file\<close>, which reads five fields of
  the event payload \<open>cloud_event.data\<close> and prints them. The model below keeps the
  three things the function touches: the payload (a dictionary), the exceptions the
  statements can raise, and the output stream that \<open>print\<close> writes to.
\<close>

subsection \<open>Values and their formatting\<close>

text \<open>
  The payload's values are the JSON scalars: null, booleans, integers and strings.
  Floats and nested lists or dictionaries are outside this model.
\<close>

datatype pyval = PyNone | PyBool bool | PyInt int | PyStr string

type_synonym notification = "string \<rightharpoonup> pyval"

text \<open>\<open>str\<close> of a Python integer: its decimal digits, with a minus sign when negative.\<close>

fun str_nat :: "nat \<Rightarrow> string" where
  "str_nat n =
     (if n < 10 then [''0123456789'' ! n]
      else str_nat (n div 10) @ [''0123456789'' ! (n mod 10)])"

declare str_nat.simps [simp del]

definition str_int :: "int \<Rightarrow> string" where
  "str_int i = (if i < 0 then CHR ''-'' # str_nat (nat (- i)) else str_nat (nat i))"

text \<open>What a replacement field \<open>{x}\<close> of an f-string produces: \<open>format(x, '')\<close>,
  which for these values is \<open>str(x)\<close>.\<close>

fun format_py :: "pyval \<Rightarrow> string" where
  "format_py PyNone = ''None''"
| "format_py (PyBool b) = (if b then ''True'' else ''False'')"
| "format_py (PyInt i) = str_int i"
| "format_py (PyStr s) = s"

subsection \<open>Exceptions\<close>

text \<open>
  \<open>KeyError k\<close> is what \<open>data[k]\<close> raises on a missing key. \<open>Exception m\<close> stands
  for any other instance of Python's class \<open>Exception\<close> whose \<open>str\<close> is \<open>m\<close>, and
  \<open>BaseException m\<close> for an exception outside that class (\<open>KeyboardInterrupt\<close>,
  \<open>SystemExit\<close>), which \<open>except Exception\<close> does not catch.
\<close>

datatype pyexn = KeyError string | Exception string | BaseException string

fun is_Exception :: "pyexn \<Rightarrow> bool" where
  "is_Exception (KeyError k) = True"
| "is_Exception (Exception m) = True"
| "is_Exception (BaseException m) = False"

text \<open>\<open>str(e)\<close>. For a \<open>KeyError\<close> it is the \<open>repr\<close> of the key: the key between
  single quotes (for the plain keys the handler looks up).\<close>

fun str_exn :: "pyexn \<Rightarrow> string" where
  "str_exn (KeyError k) = [CHR 0x27] @ k @ [CHR 0x27]"
| "str_exn (Exception m) = m"
| "str_exn (BaseException m) = m"

subsection \<open>The world: the output stream\<close>

text \<open>
  \<open>stdout\<close> is the text written so far. A write to a stream can fail (a closed
  pipe, an encoding error); \<open>faults\<close> is the fate of the coming calls of \<open>print\<close>, in
  order: \<open>None\<close> for a call that succeeds, \<open>Some e\<close> for a call that raises \<open>e\<close> and
  writes nothing. Past the end of the list every call succeeds. The record is
  extensible: whatever else the process could reach (files, network, a database)
  lives in its \<open>more\<close> part.
\<close>

record world =
  stdout :: string
  faults :: "pyexn option list"

type_synonym ('a, 'w) py = "'w world_scheme \<Rightarrow> (pyexn + 'a) \<times> 'w world_scheme"

definition NL :: char where
  "NL = CHR 0x0A"

definition return_py :: "'a \<Rightarrow> ('a, 'w) py" where
  "return_py x w = (Inr x, w)"

definition raise_py :: "pyexn \<Rightarrow> ('a, 'w) py" where
  "raise_py e w = (Inl e, w)"

text \<open>Sequencing of statements: the second runs only if the first did not raise.\<close>

definition bind_py :: "('a, 'w) py \<Rightarrow> ('a \<Rightarrow> ('b, 'w) py) \<Rightarrow> ('b, 'w) py" where
  "bind_py p q w = (case p w of (Inl e, w') \<Rightarrow> (Inl e, w') | (Inr x, w') \<Rightarrow> q x w')"

definition then_py :: "(unit, 'w) py \<Rightarrow> ('b, 'w) py \<Rightarrow> ('b, 'w) py" where
  "then_py p q = bind_py p (\<lambda>_. q)"

text \<open>\<open>try: body  except Exception as e: handler\<close>.\<close>

definition try_except_Exception :: "('a, 'w) py \<Rightarrow> (pyexn \<Rightarrow> ('a, 'w) py) \<Rightarrow> ('a, 'w) py" where
  "try_except_Exception body handler w =
     (case body w of
        (Inl e, w') \<Rightarrow> if is_Exception e then handler e w' else (Inl e, w')
      | (Inr x, w') \<Rightarrow> (Inr x, w'))"

text \<open>\<open>print(s)\<close>: writes \<open>s\<close> and a newline, or raises.\<close>

definition print_py :: "string \<Rightarrow> (unit, 'w) py" where
  "print_py s w =
     (case faults w of
        [] \<Rightarrow> (Inr (), w\<lparr>stdout := stdout w @ s @ [NL]\<rparr>)
      | None # fs \<Rightarrow> (Inr (), w\<lparr>stdout := stdout w @ s @ [NL], faults := fs\<rparr>)
      | Some e # fs \<Rightarrow> (Inl e, w\<lparr>faults := fs\<rparr>))"

subsection \<open>Dictionary access\<close>

text \<open>\<open>data[k]\<close> raises \<open>KeyError\<close> on a missing key; \<open>data.get(k, d)\<close> returns \<open>d\<close>.\<close>

definition getitem :: "notification \<Rightarrow> string \<Rightarrow> (pyval, 'w) py" where
  "getitem d k = (case d k of None \<Rightarrow> raise_py (KeyError k) | Some v \<Rightarrow> return_py v)"

definition dict_get :: "notification \<Rightarrow> string \<Rightarrow> pyval \<Rightarrow> pyval" where
  "dict_get d k dflt = (case d k of None \<Rightarrow> dflt | Some v \<Rightarrow> v)"

subsection \<open>The handler\<close>

text \<open>Statement by statement as in the source; \<open>data\<close> is \<open>cloud_event.data\<close>.\<close>

definition process_file :: "notification \<Rightarrow> (unit, 'w) py" where
  "process_file data =
     bind_py (getitem data ''bucket'') (\<lambda>bucket_name.
     bind_py (getitem data ''name'') (\<lambda>file_name.
     let content_type = dict_get data ''contentType'' (PyStr ''unknown'');
         size = dict_get data ''size'' (PyInt 0);
         time_created = dict_get data ''timeCreated'' PyNone
     in
     then_py (print_py ''Processing file upload:'')
    (then_py (print_py (''  Bucket: '' @ format_py bucket_name))
    (then_py (print_py (''  File: '' @ format_py file_name))
    (then_py (print_py (''  Content Type: '' @ format_py content_type))
    (then_py (print_py (''  Size: '' @ format_py size @ '' bytes''))
    (then_py (print_py (''  Created: '' @ format_py time_created))
    (try_except_Exception
       (print_py (''Successfully processed file: '' @ format_py file_name))
       (\<lambda>e. then_py
          (print_py (''Error processing file '' @ format_py file_name @ '': '' @ str_exn e))
          (raise_py e))))))))))"

subsection \<open>Vocabulary of the statements\<close>

text \<open>The text that printing the lines \<open>ls\<close> one after the other adds to the stream.\<close>

definition unlines :: "string list \<Rightarrow> string" where
  "unlines ls = concat (map (\<lambda>l. l @ [NL]) ls)"

text \<open>The stream before any output, on which no write fails.\<close>

definition fresh :: world where
  "fresh = \<lparr>stdout = [], faults = []\<rparr>"

subsection \<open>The scenarios of the specification\<close>

definition scenario_A :: notification where
  "scenario_A = [''bucket'' \<mapsto> PyStr ''uploads'', ''name'' \<mapsto> PyStr ''a.txt'',
     ''contentType'' \<mapsto> PyStr ''text/plain'', ''size'' \<mapsto> PyInt 120,
     ''timeCreated'' \<mapsto> PyStr ''2024-01-01T00:00:00Z'']"


text \<open>Scenario C: the key \<open>name\<close> is missing.\<close>

definition scenario_C :: notification where
  "scenario_C = [''bucket'' \<mapsto> PyStr ''uploads'', ''size'' \<mapsto> PyInt 3]"





section \<open>Properties\<close>

subsection \<open>Auxiliary facts\<close>

lemma str_int_120: "str_int 120 = ''120''"
  by (simp add: str_int_def str_nat.simps)


lemma faults_fresh: "faults fresh = []"
  by (simp add: fresh_def)


lemma print_py_ok:
  "faults w = [] \<Longrightarrow> print_py s w = (Inr (), w\<lparr>stdout := stdout w @ s @ [NL]\<rparr>)"
  by (simp add: print_py_def)

text \<open>The run on a notification with both required keys, on a stream that does not fail.\<close>

lemma process_file_ok:
  assumes "data ''bucket'' = Some b" and "data ''name'' = Some n" and "faults w = []"
  shows "process_file data w =
    (Inr (), w\<lparr>stdout := stdout w @ unlines
      [''Processing file upload:'',
       ''  Bucket: '' @ format_py b,
       ''  File: '' @ format_py n,
       ''  Content Type: '' @ format_py (dict_get data ''contentType'' (PyStr ''unknown'')),
       ''  Size: '' @ format_py (dict_get data ''size'' (PyInt 0)) @ '' bytes'',
       ''  Created: '' @ format_py (dict_get data ''timeCreated'' PyNone),
       ''Successfully processed file: '' @ format_py n]\<rparr>)"
  using assms
  by (simp add: process_file_def getitem_def bind_py_def then_py_def return_py_def
      try_except_Exception_def print_py_ok unlines_def)

text \<open>The run on a notification that lacks a required key, on any stream.\<close>

lemma process_file_missing:
  assumes "data ''bucket'' = None \<or> data ''name'' = None"
  shows "process_file data w =
     (Inl (KeyError (if data ''bucket'' = None then ''bucket'' else ''name'')), w)"
  using assms
  by (auto simp add: process_file_def getitem_def bind_py_def raise_py_def return_py_def)



subsection \<open>The frame of each statement\<close>










section \<open>The statements of the specification\<close>

subsection \<open>Notifications with both required keys\<close>



subsection \<open>Scenario A\<close>

text \<open>
  C3. On the notification of Scenario A, and a stream on which no write fails,
  \<open>process_file\<close> returns normally and writes exactly the seven lines of the
  specification, in that order, and nothing else.
\<close>

theorem scenario_A_output:
  "process_file scenario_A fresh =
     (Inr (), \<lparr>stdout = unlines
        [''Processing file upload:'',
         ''  Bucket: uploads'',
         ''  File: a.txt'',
         ''  Content Type: text/plain'',
         ''  Size: 120 bytes'',
         ''  Created: 2024-01-01T00:00:00Z'',
         ''Successfully processed file: a.txt''], faults = []\<rparr>)"
proof -
  from process_file_ok [of scenario_A "PyStr ''uploads''" "PyStr ''a.txt''" fresh,
      OF _ _ faults_fresh]
  show ?thesis
    by (simp add: scenario_A_def dict_get_def fresh_def str_int_120)
qed

subsection \<open>Defaults of the optional fields\<close>





subsection \<open>Missing required keys\<close>

text \<open>
  C2. When the notification lacks the key \<open>bucket\<close> or the key \<open>name\<close>,
  \<open>process_file\<close> raises the \<open>KeyError\<close> of the first missing key, and the text it
  has added to the stream does not contain \<open>Successfully processed file: \<close>. This
  holds on every stream, failing or not.
\<close>

theorem missing_key_raises:
  assumes "data ''bucket'' = None \<or> data ''name'' = None"
  shows "fst (process_file data w) =
           Inl (KeyError (if data ''bucket'' = None then ''bucket'' else ''name''))
       \<and> \<not> (\<exists>pre post. stdout (snd (process_file data w)) =
               stdout w @ pre @ ''Successfully processed file: '' @ post)"
  using assms by (simp add: process_file_missing)

theorem missing_key_raises_witness:
  "(scenario_C ''bucket'' = None \<or> scenario_C ''name'' = None)
   \<and> fst (process_file scenario_C fresh) = Inl (KeyError ''name'')
   \<and> \<not> (\<exists>pre post. stdout (snd (process_file scenario_C fresh)) =
               stdout fresh @ pre @ ''Successfully processed file: '' @ post)"
  using missing_key_raises [of scenario_C fresh]
  by (simp add: scenario_C_def)

text \<open>
  C9. Both required keys are looked up before the first \<open>print\<close>. When one of them
  is missing \<open>process_file\<close> raises and leaves the world as it found it: nothing has
  been written, not even the header line.
\<close>

theorem missing_key_no_output:
  assumes "data ''bucket'' = None \<or> data ''name'' = None"
  shows "(\<exists>e. fst (process_file data w) = Inl e) \<and> snd (process_file data w) = w"
  using assms by (simp add: process_file_missing)

theorem missing_key_no_output_witness:
  "([''name'' \<mapsto> PyStr ''a.txt''] ''bucket'' = None
      \<or> [''name'' \<mapsto> PyStr ''a.txt''] ''name'' = None)
   \<and> (\<exists>e. fst (process_file [''name'' \<mapsto> PyStr ''a.txt''] fresh) = Inl e)
   \<and> snd (process_file [''name'' \<mapsto> PyStr ''a.txt''] fresh) = fresh"
  using missing_key_no_output [of "[''name'' \<mapsto> PyStr ''a.txt'']" fresh]
  by simp

subsection \<open>Errors after the extraction\<close>




subsection \<open>No state between invocations\<close>



subsection \<open>The frame\<close>


subsection \<open>Keys the handler does not read\<close>

text \<open>
  C10. Two notifications that agree on the five keys \<open>bucket\<close>, \<open>name\<close>,
  \<open>contentType\<close>, \<open>size\<close> and \<open>timeCreated\<close> (present in both with the same value,
  or absent from both) give the same result and the same stream, whatever other keys
  they hold.
\<close>

theorem ignores_other_keys:
  assumes "\<forall>k \<in> {''bucket'', ''name'', ''contentType'', ''size'', ''timeCreated''}. d1 k = d2 k"
  shows "process_file d1 w = process_file d2 w"
  using assms by (simp add: process_file_def getitem_def dict_get_def)

theorem ignores_other_keys_witness:
  "scenario_A ''bucket'' = (scenario_A(''generation'' \<mapsto> PyInt 7)) ''bucket''
   \<and> scenario_A ''name'' = (scenario_A(''generation'' \<mapsto> PyInt 7)) ''name''
   \<and> scenario_A ''contentType'' = (scenario_A(''generation'' \<mapsto> PyInt 7)) ''contentType''
   \<and> scenario_A ''size'' = (scenario_A(''generation'' \<mapsto> PyInt 7)) ''size''
   \<and> scenario_A ''timeCreated'' = (scenario_A(''generation'' \<mapsto> PyInt 7)) ''timeCreated''
   \<and> (scenario_A(''generation'' \<mapsto> PyInt 7)) ''generation'' \<noteq> scenario_A ''generation''
   \<and> process_file scenario_A fresh = process_file (scenario_A(''generation'' \<mapsto> PyInt 7)) fresh"
  using ignores_other_keys [of scenario_A "scenario_A(''generation'' \<mapsto> PyInt 7)" fresh]
  by (simp add: scenario_A_def)

end
